theory Spec2Isabelle
  imports Main "HOL-Library.Word"
begin

unbundle bit_operations_syntax

section \<open>JavaScript strings\<close>

text \<open>
  A JavaScript string is a sequence of 16-bit code units; \<open>length\<close>, \<open>charCodeAt\<close>,
  \<open>split\<close>, \<open>slice\<close> and the regular expressions of the handlers (none has the
  \<open>u\<close> flag) all count code units. String literals of the source are ASCII and are
  written \<open>js ''...''\<close>. The fixed messages of the HTTP responses are kept as HOL strings.
\<close>

type_synonym jsstring = "16 word list"

definition js :: "string \<Rightarrow> jsstring" where
  "js s = map (\<lambda>c. of_nat (of_char c)) s"

section \<open>secure-auth: the login rate limiter\<close>

text \<open>
  \<open>loginAttempts\<close> is a \<open>Map\<close> from the rate-limit key to a record of three numbers.
  \<open>Date.now()\<close> is an integer number of milliseconds; every function that reads the
  clock takes the reading as its first argument \<open>now\<close>. The functions mutate the map;
  the model returns the new map.
\<close>

record attempt_record =
  count :: int
  lastAttempt :: int
  blockedUntil :: int

type_synonym login_attempts = "jsstring \<rightharpoonup> attempt_record"

definition RATE_LIMIT_WINDOW :: int where
  "RATE_LIMIT_WINDOW = 15 * 60 * 1000"

definition MAX_ATTEMPTS :: int where
  "MAX_ATTEMPTS = 5"

definition BLOCK_DURATION :: int where
  "BLOCK_DURATION = 30 * 60 * 1000"

text \<open>
  \<open>Math.ceil(ms / 1000)\<close> on an integer number of milliseconds: the least integer
  not below the quotient.
\<close>

definition ceil_seconds :: "int \<Rightarrow> int" where
  "ceil_seconds ms = - ((- ms) div 1000)"

record rate_check =
  allowed :: bool
  waitSeconds :: "int option"

definition checkRateLimit ::
  "int \<Rightarrow> jsstring \<Rightarrow> login_attempts \<Rightarrow> rate_check \<times> login_attempts" where
  "checkRateLimit now identifier la =
     (case la identifier of
        None \<Rightarrow> (\<lparr>allowed = True, waitSeconds = None\<rparr>, la)
      | Some record \<Rightarrow>
          if blockedUntil record > now then
            (\<lparr>allowed = False,
              waitSeconds = Some (ceil_seconds (blockedUntil record - now))\<rparr>, la)
          else if now - lastAttempt record > RATE_LIMIT_WINDOW then
            (\<lparr>allowed = True, waitSeconds = None\<rparr>, la(identifier := None))
          else if count record \<ge> MAX_ATTEMPTS then
            (\<lparr>allowed = False, waitSeconds = Some (ceil_seconds BLOCK_DURATION)\<rparr>,
             la(identifier \<mapsto> record\<lparr>blockedUntil := now + BLOCK_DURATION\<rparr>))
          else (\<lparr>allowed = True, waitSeconds = None\<rparr>, la))"

definition recordAttempt ::
  "int \<Rightarrow> jsstring \<Rightarrow> bool \<Rightarrow> login_attempts \<Rightarrow> login_attempts" where
  "recordAttempt now identifier success la =
     (if success then la(identifier := None)
      else (case la identifier of
              None \<Rightarrow> la(identifier \<mapsto> \<lparr>count = 1, lastAttempt = now, blockedUntil = 0\<rparr>)
            | Some record \<Rightarrow>
                la(identifier \<mapsto> record\<lparr>count := count record + 1, lastAttempt := now\<rparr>)))"

text \<open>Failed attempts recorded one after the other, at the clock readings \<open>ts\<close>.\<close>

fun recordFailures :: "int list \<Rightarrow> jsstring \<Rightarrow> login_attempts \<Rightarrow> login_attempts" where
  "recordFailures [] identifier la = la"
| "recordFailures (t # ts) identifier la =
     recordFailures ts identifier (recordAttempt t identifier False la)"

section \<open>secure-auth: credential comparison and hashing\<close>

text \<open>
  \<open>secureCompare\<close>: the accumulator \<open>result\<close> is a 32-bit integer (the operands of
  \<open>|=\<close> and \<open>^\<close> are converted to 32 bits; code units are below \<open>2^16\<close>). The two
  \<open>for\<close> loops run over the indices \<open>0..<n\<close>. A read past the end is NaN, which
  the bitwise operators take as \<open>0\<close>. On a length mismatch the loop reads
  \<open>charCodeAt(i % length) || 0\<close>, which is \<open>0\<close> for the empty string (the index is NaN
  and the read is NaN), and its result is discarded.
\<close>

definition charCodeAt :: "jsstring \<Rightarrow> nat \<Rightarrow> 32 word" where
  "charCodeAt s i = (if i < length s then ucast (s ! i) else 0)"

definition charCodeAtMod :: "jsstring \<Rightarrow> nat \<Rightarrow> 32 word" where
  "charCodeAtMod s i = (if length s = 0 then 0 else charCodeAt s (i mod length s))"

definition secureCompare :: "jsstring \<Rightarrow> jsstring \<Rightarrow> bool" where
  "secureCompare a b =
     (if length a \<noteq> length b then
        (let result = fold (\<lambda>i result. result OR (charCodeAtMod a i XOR charCodeAtMod b i))
                        [0..<max (length a) (length b)] 0
         in False)
      else
        (let result = fold (\<lambda>i result. result OR (charCodeAt a i XOR charCodeAt b i))
                        [0..<length a] 0
         in result = 0))"

text \<open>
  \<open>TextEncoder.encode\<close> turns the code units into UTF-8 bytes: a high surrogate
  followed by a low one is one supplementary code point, every other surrogate is
  replaced by U+FFFD, and each code point is written in one to four bytes.
\<close>

definition isHighSurrogate :: "16 word \<Rightarrow> bool" where
  "isHighSurrogate c = (0xD800 \<le> c \<and> c \<le> 0xDBFF)"

definition isLowSurrogate :: "16 word \<Rightarrow> bool" where
  "isLowSurrogate c = (0xDC00 \<le> c \<and> c \<le> 0xDFFF)"

definition loneCodePoint :: "16 word \<Rightarrow> nat" where
  "loneCodePoint c = (if isHighSurrogate c \<or> isLowSurrogate c then 0xFFFD else unat c)"

fun codePoints :: "jsstring \<Rightarrow> nat list" where
  "codePoints [] = []"
| "codePoints [c] = [loneCodePoint c]"
| "codePoints (c # d # cs) =
     (if isHighSurrogate c \<and> isLowSurrogate d then
        (0x10000 + (unat c - 0xD800) * 0x400 + (unat d - 0xDC00)) # codePoints cs
      else loneCodePoint c # codePoints (d # cs))"

definition utf8 :: "nat \<Rightarrow> 8 word list" where
  "utf8 cp =
     (if cp < 0x80 then [of_nat cp]
      else if cp < 0x800 then [of_nat (0xC0 + cp div 0x40), of_nat (0x80 + cp mod 0x40)]
      else if cp < 0x10000 then
        [of_nat (0xE0 + cp div 0x1000), of_nat (0x80 + cp div 0x40 mod 0x40),
         of_nat (0x80 + cp mod 0x40)]
      else
        [of_nat (0xF0 + cp div 0x40000), of_nat (0x80 + cp div 0x1000 mod 0x40),
         of_nat (0x80 + cp div 0x40 mod 0x40), of_nat (0x80 + cp mod 0x40)])"

definition encode :: "jsstring \<Rightarrow> 8 word list" where
  "encode s = concat (map utf8 (codePoints s))"

text \<open>
  \<open>hashPassword\<close>: the digest of the encoded bytes and its hexadecimal rendering
  (\<open>crypto.subtle.digest('SHA-256', _)\<close> and the \<open>map\<close>/\<open>join\<close> over its bytes) is the
  parameter \<open>sha256hex\<close>. The environment variable may be unset: \<open>?.slice(0, 32)\<close> is
  then \<open>undefined\<close>, which the concatenation renders as the text \<open>undefined\<close>.
\<close>

definition hashPassword ::
  "(8 word list \<Rightarrow> jsstring) \<Rightarrow> jsstring option \<Rightarrow> jsstring \<Rightarrow> jsstring" where
  "hashPassword sha256hex serviceRoleKey password =
     (let data = encode (password @
            (case serviceRoleKey of None \<Rightarrow> js ''undefined'' | Some k \<Rightarrow> take 32 k))
      in sha256hex data)"

definition verifyPassword ::
  "(8 word list \<Rightarrow> jsstring) \<Rightarrow> jsstring option \<Rightarrow> jsstring \<Rightarrow> jsstring \<Rightarrow> bool" where
  "verifyPassword sha256hex serviceRoleKey password storedHash =
     (let inputHash = hashPassword sha256hex serviceRoleKey password
      in secureCompare inputHash storedHash)"

text \<open>
  The password check of the login action, written out in the admin branch and again in
  the school branch: both comparisons are evaluated, then the login is refused when
  neither holds.
\<close>

definition credentialsRefused ::
  "(8 word list \<Rightarrow> jsstring) \<Rightarrow> jsstring option \<Rightarrow> jsstring \<Rightarrow> jsstring \<Rightarrow> bool" where
  "credentialsRefused sha256hex serviceRoleKey password password_hash =
     (let isValidHash = verifyPassword sha256hex serviceRoleKey password password_hash;
          isLegacyPlainText = secureCompare password password_hash
      in \<not> isValidHash \<and> \<not> isLegacyPlainText)"

section \<open>secure-auth: the login action\<close>

text \<open>
  The data store is an external collaborator. A \<open>maybeSingle()\<close> query answers
  \<open>{data, error}\<close>: an error, no row, or one row. The two queries of the login action are
  parameters of the model, as are the client address, the clock readings of
  \<open>checkRateLimit\<close> and of \<open>recordAttempt\<close>, and the value of \<open>crypto.randomUUID()\<close>.
  The model is of a request whose JSON body has the string fields \<open>userType\<close>,
  \<open>identifier\<close> and \<open>password\<close> and the action \<open>login\<close>, in a deployment where the
  service key is set (the handler builds its store client from it first). The row the
  handler appends to the audit table after a successful login is an effect on the store
  and has no part in the response or in the rate-limit table.
\<close>

datatype 'r lookup = LookupError | NoRow | Row 'r

record admin_row =
  admin_id_col :: jsstring
  admin_name :: jsstring
  admin_role :: jsstring
  admin_admin_id :: jsstring
  admin_password_hash :: jsstring

record school_row =
  school_id_col :: jsstring
  school_school_id :: jsstring
  school_name :: jsstring
  school_fee_paid :: bool
  school_password_hash :: jsstring
  school_is_banned :: bool

record auth_env =
  sha256hex :: "8 word list \<Rightarrow> jsstring"
  serviceRoleKey :: jsstring
  adminsByAdminId :: "jsstring \<Rightarrow> admin_row lookup"
  schoolsBySchoolId :: "jsstring \<Rightarrow> school_row lookup"
  clientIp :: jsstring
  checkTime :: int
  recordTime :: int
  randomUUID :: jsstring

record login_request =
  req_userType :: jsstring
  req_identifier :: jsstring
  req_password :: jsstring

datatype auth_body =
    ErrorBody string
  | RateLimitedBody "int option"
  | AdminLoginBody jsstring jsstring jsstring jsstring jsstring
  | SchoolLoginBody jsstring jsstring jsstring bool jsstring

record 'b response =
  status :: nat
  body :: 'b

text \<open>\<open>`${userType}:${identifier || clientIp}`\<close>: the empty string is falsy.\<close>

definition rateLimitKey :: "auth_env \<Rightarrow> login_request \<Rightarrow> jsstring" where
  "rateLimitKey env req =
     req_userType req @ js '':'' @
       (if req_identifier req \<noteq> [] then req_identifier req else clientIp env)"

definition login ::
  "auth_env \<Rightarrow> login_request \<Rightarrow> login_attempts \<Rightarrow> auth_body response \<times> login_attempts" where
  "login env req la =
     (let key = rateLimitKey env req;
          (rateCheck, la1) = checkRateLimit (checkTime env) key la
      in
      if \<not> allowed rateCheck then
        (\<lparr>status = 429, body = RateLimitedBody (waitSeconds rateCheck)\<rparr>, la1)
      else if req_userType req = js ''admin'' then
        (case adminsByAdminId env (req_identifier req) of
           LookupError \<Rightarrow>
             (\<lparr>status = 401, body = ErrorBody ''Authentication failed''\<rparr>,
              recordAttempt (recordTime env) key False la1)
         | NoRow \<Rightarrow>
             (\<lparr>status = 401, body = ErrorBody ''Invalid credentials''\<rparr>,
              recordAttempt (recordTime env) key False la1)
         | Row admin \<Rightarrow>
             if credentialsRefused (sha256hex env) (Some (serviceRoleKey env))
                  (req_password req) (admin_password_hash admin)
             then
               (\<lparr>status = 401, body = ErrorBody ''Invalid credentials''\<rparr>,
                recordAttempt (recordTime env) key False la1)
             else
               (\<lparr>status = 200,
                 body = AdminLoginBody (admin_id_col admin) (admin_name admin)
                          (admin_role admin) (admin_admin_id admin) (randomUUID env)\<rparr>,
                recordAttempt (recordTime env) key True la1))
      else if req_userType req = js ''school'' then
        (case schoolsBySchoolId env (req_identifier req) of
           LookupError \<Rightarrow>
             (\<lparr>status = 401, body = ErrorBody ''Authentication failed''\<rparr>,
              recordAttempt (recordTime env) key False la1)
         | NoRow \<Rightarrow>
             (\<lparr>status = 401, body = ErrorBody ''Invalid credentials''\<rparr>,
              recordAttempt (recordTime env) key False la1)
         | Row school \<Rightarrow>
             if school_is_banned school then
               (\<lparr>status = 403, body = ErrorBody ''This school account has been suspended''\<rparr>,
                la1)
             else if credentialsRefused (sha256hex env) (Some (serviceRoleKey env))
                  (req_password req) (school_password_hash school)
             then
               (\<lparr>status = 401, body = ErrorBody ''Invalid credentials''\<rparr>,
                recordAttempt (recordTime env) key False la1)
             else
               (\<lparr>status = 200,
                 body = SchoolLoginBody (school_id_col school) (school_school_id school)
                          (school_name school) (school_fee_paid school) (randomUUID env)\<rparr>,
                recordAttempt (recordTime env) key True la1))
      else (\<lparr>status = 400, body = ErrorBody ''Invalid user type''\<rparr>, la1))"

text \<open>Login requests served one after the other, each to completion.\<close>

fun serveLogins ::
  "(auth_env \<times> login_request) list \<Rightarrow> login_attempts \<Rightarrow>
     auth_body response list \<times> login_attempts" where
  "serveLogins [] la = ([], la)"
| "serveLogins ((env, req) # rest) la =
     (let (resp, la1) = login env req la;
          (resps, la2) = serveLogins rest la1
      in (resp # resps, la2))"

section \<open>get-students: the admin branch\<close>

text \<open>
  \<open>session_token\<close> comes from the JSON body: it is absent (or null), a string, or a
  value of another JSON type. On the last, \<open>session_token?.split\<close> is not a function
  and the call throws a TypeError, which the handler's \<open>catch\<close> turns into a 500.
  \<open>split('_')\<close> cuts the token at every underscore; \<open>[1]\<close> is \<open>undefined\<close> when there
  is no second piece. The store's queries are parameters; the admin query receives the
  derived id as the handler passes it, \<open>undefined\<close> included.
\<close>

datatype token_field = TokenAbsent | TokenNotAString | TokenString jsstring

fun split :: "16 word \<Rightarrow> jsstring \<Rightarrow> jsstring list" where
  "split sep [] = [[]]"
| "split sep (c # cs) =
     (if c = sep then [] # split sep cs
      else (case split sep cs of [] \<Rightarrow> [[c]] | w # ws \<Rightarrow> (c # w) # ws))"

definition underscore :: "16 word" where
  "underscore = of_nat (of_char CHR ''_'')"

datatype js_error = TypeError

definition adminIdOfToken :: "token_field \<Rightarrow> js_error + jsstring option" where
  "adminIdOfToken session_token =
     (case session_token of
        TokenAbsent \<Rightarrow> Inr None
      | TokenNotAString \<Rightarrow> Inl TypeError
      | TokenString t \<Rightarrow>
          (let pieces = split underscore t
           in Inr (if 1 < length pieces then Some (pieces ! 1) else None)))"

datatype 'r fetched = FetchError | Fetched "'r list option"

record ('a, 's, 'c) students_env =
  adminsById :: "jsstring option \<Rightarrow> 'a lookup"
  allStudents :: "'s fetched"
  allSchools :: "'c fetched"

datatype ('s, 'c) students_body =
    StudentsError string
  | StudentsAndSchools "'s list" "'c list"

definition getStudentsAdmin ::
  "('a, 's, 'c) students_env \<Rightarrow> token_field \<Rightarrow> ('s, 'c) students_body response" where
  "getStudentsAdmin env session_token =
     (case adminIdOfToken session_token of
        Inl _ \<Rightarrow> \<lparr>status = 500, body = StudentsError ''Internal server error''\<rparr>
      | Inr adminId \<Rightarrow>
          (case adminsById env adminId of
             LookupError \<Rightarrow> \<lparr>status = 401, body = StudentsError ''Invalid admin session''\<rparr>
           | NoRow \<Rightarrow> \<lparr>status = 401, body = StudentsError ''Invalid admin session''\<rparr>
           | Row admin \<Rightarrow>
               (case allStudents env of
                  FetchError \<Rightarrow>
                    \<lparr>status = 500, body = StudentsError ''Failed to fetch students''\<rparr>
                | Fetched students \<Rightarrow>
                    (case allSchools env of
                       FetchError \<Rightarrow>
                         \<lparr>status = 500, body = StudentsError ''Failed to fetch schools''\<rparr>
                     | Fetched schools \<Rightarrow>
                         \<lparr>status = 200,
                           body = StudentsAndSchools
                                    (case students of None \<Rightarrow> [] | Some xs \<Rightarrow> xs)
                                    (case schools of None \<Rightarrow> [] | Some xs \<Rightarrow> xs)\<rparr>))))"

text \<open>
  The session token the login action mints: \<open>crypto.randomUUID()\<close> returns 36
  characters, lower-case hexadecimal digits with a hyphen at positions 8, 13, 18 and 23.
\<close>

definition hyphen :: "16 word" where
  "hyphen = of_nat (of_char CHR ''-'')"

definition isHexDigit :: "16 word \<Rightarrow> bool" where
  "isHexDigit c = (c \<in> set (js ''0123456789abcdef''))"

definition isUUID :: "jsstring \<Rightarrow> bool" where
  "isUUID t =
     (length t = 36 \<and>
      list_all (\<lambda>i. if i \<in> {8, 13, 18, 23} then t ! i = hyphen else isHexDigit (t ! i))
        [0..<36])"

section \<open>study-chat: the tutor endpoint\<close>

subsection \<open>The per-student rate limit\<close>

record chat_limit =
  limit_count :: int
  resetAt :: int

type_synonym rate_limits = "jsstring \<rightharpoonup> chat_limit"

text \<open>
  The handler calls the limiter with its default arguments, \<open>maxRequests = 30\<close> and
  \<open>windowMs = 60000\<close>. It answers whether the request may go on.
\<close>

definition checkRateLimit_chat ::
  "int \<Rightarrow> jsstring \<Rightarrow> int \<Rightarrow> int \<Rightarrow> rate_limits \<Rightarrow> bool \<times> rate_limits" where
  "checkRateLimit_chat now userId maxRequests windowMs rl =
     (let key = js ''chat:'' @ userId in
      case rl key of
        None \<Rightarrow> (True, rl(key \<mapsto> \<lparr>limit_count = 1, resetAt = now + windowMs\<rparr>))
      | Some limit \<Rightarrow>
          if now > resetAt limit then
            (True, rl(key \<mapsto> \<lparr>limit_count = 1, resetAt = now + windowMs\<rparr>))
          else if limit_count limit \<ge> maxRequests then (False, rl)
          else (True, rl(key \<mapsto> limit\<lparr>limit_count := limit_count limit + 1\<rparr>)))"

subsection \<open>The messages sent to the model\<close>

record chat_message =
  msg_role :: jsstring
  msg_content :: jsstring
  msg_imageUrl :: "jsstring option"

datatype content_part = TextPart jsstring | ImageUrlPart jsstring

datatype ai_content = PlainContent jsstring | PartsContent "content_part list"

record ai_message =
  ai_role :: jsstring
  ai_content :: ai_content

text \<open>
  \<open>messages.slice(-6)\<close>: a negative start counts from the end and stops at the
  beginning of the array.
\<close>

definition sliceFromEnd :: "nat \<Rightarrow> 'a list \<Rightarrow> 'a list" where
  "sliceFromEnd n xs = drop (nat (max (int (length xs) - int n) 0)) xs"

text \<open>
  One transcript entry as the loop pushes it: mixed content when \<open>imageUrl\<close> is truthy
  (present and not empty), the plain text otherwise.
\<close>

definition toAIMessage :: "chat_message \<Rightarrow> ai_message" where
  "toAIMessage msg =
     (case msg_imageUrl msg of
        None \<Rightarrow> \<lparr>ai_role = msg_role msg, ai_content = PlainContent (msg_content msg)\<rparr>
      | Some url \<Rightarrow>
          if url \<noteq> [] then
            \<lparr>ai_role = msg_role msg,
              ai_content = PartsContent
                [TextPart (if msg_content msg \<noteq> [] then msg_content msg
                           else js ''Please analyze this image from my study materials.''),
                 ImageUrlPart url]\<rparr>
          else \<lparr>ai_role = msg_role msg, ai_content = PlainContent (msg_content msg)\<rparr>)"

text \<open>
  \<open>chatMessages\<close>: the system message, then the recent entries when \<open>messages\<close> is an
  array (\<open>None\<close> stands for a missing or non-array value).
\<close>

definition buildChatMessages ::
  "jsstring \<Rightarrow> chat_message list option \<Rightarrow> ai_message list" where
  "buildChatMessages systemContent messages =
     \<lparr>ai_role = js ''system'', ai_content = PlainContent systemContent\<rparr> #
       (case messages of
          None \<Rightarrow> []
        | Some ms \<Rightarrow> (let recentMessages = sliceFromEnd 6 ms in map toAIMessage recentMessages))"

subsection \<open>The model call and its fallback\<close>

text \<open>
  The gateway is an external collaborator: given the model name and the messages, the
  request fails (\<open>fetch\<close> or \<open>resp.json()\<close> rejects), answers with a non-OK status, or
  answers with a JSON document of which the handler reads
  \<open>data?.choices?.[0]?.message?.content\<close>: missing, not a string, or a string.
\<close>

datatype reply_content = ContentMissing | ContentNotAString | ContentString jsstring

datatype gateway_answer = Rejected string | NotOk nat | OkJson reply_content

type_synonym gateway = "jsstring \<Rightarrow> ai_message list \<Rightarrow> gateway_answer"

datatype chat_error =
    Message string
  | AIServiceError nat

text \<open>
  The bodies of the responses: the limiter's refusal (a fixed error and a fixed reply
  text), an error of the gateway passed on, the \<open>catch\<close> body (the error's message and
  a fixed reply text), and the reply with its analysis (\<open>None\<close> is \<open>null\<close>).
\<close>

datatype 'j chat_body =
    TooManyMessages
  | GatewayError string
  | ChatFailure chat_error
  | ChatReply jsstring "'j option"

datatype 'j call_result =
    EarlyResponse "'j chat_body response"
  | Thrown chat_error
  | Data reply_content

definition PRIMARY_MODEL :: jsstring where
  "PRIMARY_MODEL = js ''google/gemini-3-flash-preview''"

definition FALLBACK_MODEL :: jsstring where
  "FALLBACK_MODEL = js ''google/gemini-2.5-flash''"

definition callLovableAI :: "gateway \<Rightarrow> ai_message list \<Rightarrow> jsstring \<Rightarrow> 'j call_result" where
  "callLovableAI gw chatMessages model =
     (case gw model chatMessages of
        Rejected msg \<Rightarrow> Thrown (Message msg)
      | NotOk st \<Rightarrow>
          if st = 429 then
            EarlyResponse \<lparr>status = 429,
              body = GatewayError ''Rate limit exceeded. Please try again in a moment.''\<rparr>
          else if st = 402 then
            EarlyResponse \<lparr>status = 402,
              body = GatewayError ''AI credits exhausted. Please add credits to continue.''\<rparr>
          else Thrown (AIServiceError st)
      | OkJson c \<Rightarrow> Data c)"

text \<open>
  \<open>String.prototype.trim\<close> removes the white space and line terminator code units of
  ECMAScript from both ends.
\<close>

definition isWhiteSpace :: "16 word \<Rightarrow> bool" where
  "isWhiteSpace c =
     (c \<in> {0x9, 0xA, 0xB, 0xC, 0xD, 0x20, 0xA0, 0x1680, 0x2028, 0x2029, 0x202F, 0x205F,
            0x3000, 0xFEFF} \<or> (0x2000 \<le> c \<and> c \<le> 0x200A))"

definition trim :: "jsstring \<Rightarrow> jsstring" where
  "trim s = rev (dropWhile isWhiteSpace (rev (dropWhile isWhiteSpace s)))"

text \<open>
  The test \<open>typeof aiResponse !== "string" || aiResponse.trim().length === 0\<close>:
  \<open>None\<close> when it holds, the string otherwise.
\<close>

definition usableContent :: "reply_content \<Rightarrow> jsstring option" where
  "usableContent aiResponse =
     (case aiResponse of
        ContentString s \<Rightarrow> if length (trim s) = 0 then None else Some s
      | _ \<Rightarrow> None)"

subsection \<open>The analysis block\<close>

text \<open>
  The first place where \<open>pat\<close> occurs in a text: what is before it and what is after it.
\<close>

fun findFirst :: "jsstring \<Rightarrow> jsstring \<Rightarrow> (jsstring \<times> jsstring) option" where
  "findFirst pat [] = (if pat = [] then Some ([], []) else None)"
| "findFirst pat (c # cs) =
     (if take (length pat) (c # cs) = pat then Some ([], drop (length pat) (c # cs))
      else (case findFirst pat cs of
              None \<Rightarrow> None
            | Some (before, after) \<Rightarrow> Some (c # before, after)))"

text \<open>
  \<open>/\[ANALYSIS\](.*?)\[\/ANALYSIS\]/s\<close>: the match starts at the leftmost opening
  delimiter that has a closing delimiter after it, which is the first opening delimiter
  if any is; the group is lazy and ends at the first closing delimiter after the opening
  one; with the \<open>s\<close> flag the dot matches every code unit. The result is the text before
  the match, the group and the text after the match.
\<close>

definition analysisMatch :: "jsstring \<Rightarrow> (jsstring \<times> jsstring \<times> jsstring) option" where
  "analysisMatch aiResponse =
     (case findFirst (js ''[ANALYSIS]'') aiResponse of
        None \<Rightarrow> None
      | Some (before, rest) \<Rightarrow>
          (case findFirst (js ''[/ANALYSIS]'') rest of
             None \<Rightarrow> None
           | Some (inner, after) \<Rightarrow> Some (before, inner, after)))"

text \<open>
  \<open>JSON.parse\<close> is the parameter \<open>jsonParse\<close>: \<open>None\<close> when it throws. The replacement
  of the first match by the empty string leaves the text before and after the match.
\<close>

definition extractAnalysis ::
  "(jsstring \<Rightarrow> 'j option) \<Rightarrow> bool \<Rightarrow> jsstring \<Rightarrow> jsstring \<times> 'j option" where
  "extractAnalysis jsonParse analyzeSession aiResponse =
     (if analyzeSession then
        (case analysisMatch aiResponse of
           None \<Rightarrow> (aiResponse, None)
         | Some (before, inner, after) \<Rightarrow>
             (case jsonParse inner of
                None \<Rightarrow> (aiResponse, None)
              | Some parsed \<Rightarrow> (trim (before @ after), Some parsed)))
      else (aiResponse, None))"

subsection \<open>The handler\<close>

text \<open>
  The environment of one request: whether the gateway key is configured, the clock
  reading of the limiter, the text \<open>buildSystemPrompt\<close> returned for the student's fetched
  history followed by the analysis instruction when analysis is requested
  (\<open>systemContent\<close>), the gateway and \<open>JSON.parse\<close>. The \<open>studentHistory\<close> field of the
  reply repeats the fetched history and is left out. Besides the response and the new
  limiter table the model returns the calls made to the gateway, in order.
\<close>

record 'j chat_env =
  apiKeyConfigured :: bool
  chatTime :: int
  systemContent :: jsstring
  gatewayOf :: gateway
  jsonParse :: "jsstring \<Rightarrow> 'j option"

record chat_request =
  messages :: "chat_message list option"
  studentId :: "jsstring option"
  analyzeSession :: bool

text \<open>
  \<open>studentId && !checkRateLimit(studentId)\<close>: the limiter runs, and counts the
  request, only for a truthy (present and not empty) student id.
\<close>

definition studentAllowed ::
  "int \<Rightarrow> jsstring option \<Rightarrow> rate_limits \<Rightarrow> bool \<times> rate_limits" where
  "studentAllowed now sid rl =
     (case sid of
        None \<Rightarrow> (True, rl)
      | Some userId \<Rightarrow>
          if userId \<noteq> [] then checkRateLimit_chat now userId 30 60000 rl else (True, rl))"

definition finishReply ::
  "'j chat_env \<Rightarrow> chat_request \<Rightarrow> jsstring \<Rightarrow> 'j chat_body response" where
  "finishReply env req aiResponse =
     (let (visible, sessionAnalysis) =
            extractAnalysis (jsonParse env) (analyzeSession req) aiResponse
      in \<lparr>status = 200, body = ChatReply visible sessionAnalysis\<rparr>)"

definition studyChat ::
  "'j chat_env \<Rightarrow> chat_request \<Rightarrow> rate_limits \<Rightarrow>
     'j chat_body response \<times> rate_limits \<times> (jsstring \<times> ai_message list) list" where
  "studyChat env req rl =
     (if \<not> apiKeyConfigured env then
        (\<lparr>status = 500, body = ChatFailure (Message ''AI service is not configured'')\<rparr>, rl, [])
      else
        let (ok, rl1) = studentAllowed (chatTime env) (studentId req) rl in
        if \<not> ok then
          (\<lparr>status = 429, body = TooManyMessages\<rparr>, rl1, [])
        else
          let chatMessages = buildChatMessages (systemContent env) (messages req);
              call1 = (PRIMARY_MODEL, chatMessages);
              call2 = (FALLBACK_MODEL, chatMessages)
          in
          (case callLovableAI (gatewayOf env) chatMessages PRIMARY_MODEL of
             EarlyResponse r \<Rightarrow> (r, rl1, [call1])
           | Thrown e \<Rightarrow> (\<lparr>status = 500, body = ChatFailure e\<rparr>, rl1, [call1])
           | Data data \<Rightarrow>
               (case usableContent data of
                  Some aiResponse \<Rightarrow> (finishReply env req aiResponse, rl1, [call1])
                | None \<Rightarrow>
                    (case callLovableAI (gatewayOf env) chatMessages FALLBACK_MODEL of
                       EarlyResponse r \<Rightarrow> (r, rl1, [call1, call2])
                     | Thrown e \<Rightarrow>
                         (\<lparr>status = 500, body = ChatFailure e\<rparr>, rl1, [call1, call2])
                     | Data data2 \<Rightarrow>
                         (case usableContent data2 of
                            Some aiResponse \<Rightarrow>
                              (finishReply env req aiResponse, rl1, [call1, call2])
                          | None \<Rightarrow>
                              (\<lparr>status = 500,
                                body = ChatFailure (Message ''No response from AI'')\<rparr>,
                               rl1, [call1, call2]))))))"

section \<open>Concrete environments and requests\<close>

text \<open>
  A small store, client and clock on which the theorems below are instantiated. The
  digest of the example environment is a stand-in (a marker followed by the first two
  bytes of its input).
\<close>

definition example_admin :: admin_row where
  "example_admin = \<lparr>admin_id_col = js ''a-1'', admin_name = js ''Asha'', admin_role = js ''owner'',
     admin_admin_id = js ''root'', admin_password_hash = js ''#pw''\<rparr>"

definition example_school :: "bool \<Rightarrow> school_row" where
  "example_school banned = \<lparr>school_id_col = js ''s-1'', school_school_id = js ''SCH_1'',
     school_name = js ''DPS'', school_fee_paid = True, school_password_hash = js ''#pw'',
     school_is_banned = banned\<rparr>"

definition example_env :: "admin_row lookup \<Rightarrow> school_row lookup \<Rightarrow> int \<Rightarrow> auth_env" where
  "example_env admins schools t =
     \<lparr>sha256hex = (\<lambda>data. js ''#'' @ map ucast (take 2 data)), serviceRoleKey = js ''key'',
      adminsByAdminId = (\<lambda>i. if i = js ''root'' then admins else NoRow),
      schoolsBySchoolId = (\<lambda>i. if i = js ''SCH_1'' then schools else NoRow),
      clientIp = js ''10.0.0.1'', checkTime = t, recordTime = t + 5,
      randomUUID = js ''0f8fad5b-d9cb-469f-a165-70867728950e''\<rparr>"

definition example_request :: "string \<Rightarrow> string \<Rightarrow> string \<Rightarrow> login_request" where
  "example_request ty i p = \<lparr>req_userType = js ty, req_identifier = js i, req_password = js p\<rparr>"

definition example_entry :: "string \<Rightarrow> string \<Rightarrow> chat_message" where
  "example_entry r c = \<lparr>msg_role = js r, msg_content = js c, msg_imageUrl = None\<rparr>"

definition example_transcript :: "chat_message list" where
  "example_transcript =
     [example_entry ''user'' ''m1'', example_entry ''assistant'' ''m2'',
      example_entry ''user'' ''m3'', example_entry ''assistant'' ''m4'',
      example_entry ''user'' ''m5'', example_entry ''assistant'' ''m6'',
      example_entry ''user'' ''m7'', example_entry ''assistant'' ''m8'']"

text \<open>
  For the tutor endpoint: a transcript of eight entries, a gateway that answers the
  primary and the fallback model with given contents, and a stand-in for \<open>JSON.parse\<close>
  that agrees with it on the texts used below (one object, and texts that are not JSON).
\<close>

datatype json = JNull | JString jsstring | JArray "json list" | JObject "(jsstring \<times> json) list"

definition example_parse :: "jsstring \<Rightarrow> json option" where
  \<open>example_parse s =
     (if s = js ''{"understanding":"good"}''
      then Some (JObject [(js ''understanding'', JString (js ''good''))])
      else None)\<close>

definition example_gateway :: "reply_content \<Rightarrow> reply_content \<Rightarrow> gateway" where
  "example_gateway primary fallback model chatMessages =
     (if model = PRIMARY_MODEL then OkJson primary else OkJson fallback)"

definition example_chat_env :: "gateway \<Rightarrow> json chat_env" where
  "example_chat_env gw =
     \<lparr>apiKeyConfigured = True, chatTime = 5000, systemContent = js ''You are an AI Study Buddy'',
      gatewayOf = gw, jsonParse = example_parse\<rparr>"

definition example_chat_request :: "bool \<Rightarrow> chat_request" where
  "example_chat_request analyze =
     \<lparr>messages = Some example_transcript, studentId = Some (js ''stu-1''),
      analyzeSession = analyze\<rparr>"

text \<open>For get-students: a store with one admin, one student and no school.\<close>

definition example_students_env :: "(unit, jsstring, jsstring) students_env" where
  "example_students_env =
     \<lparr>adminsById = (\<lambda>d. if d = Some (js ''a-1'') then Row () else NoRow),
      allStudents = Fetched (Some [js ''Ravi'']),
      allSchools = Fetched None\<rparr>"

section \<open>Properties of the rate limiter\<close>

lemma ceil_seconds_bounds:
  "ms \<le> 1000 * ceil_seconds ms \<and> 1000 * (ceil_seconds ms - 1) < ms"
proof -
  define q r where "q = (- ms) div 1000" and "r = (- ms) mod 1000"
  have "- ms = 1000 * q + r" "0 \<le> r" "r < 1000"
    unfolding q_def r_def by simp_all
  moreover have "ceil_seconds ms = - q"
    unfolding q_def ceil_seconds_def by simp
  ultimately show ?thesis by simp
qed

lemma recordAttempt_other:
  "k \<noteq> identifier \<Longrightarrow> recordAttempt now identifier success la k = la k"
  by (simp add: recordAttempt_def split: option.splits)

lemma checkRateLimit_other:
  "k \<noteq> identifier \<Longrightarrow> snd (checkRateLimit now identifier la) k = la k"
  by (simp add: checkRateLimit_def split: option.splits)

lemma recordFailures_known:
  "la identifier = Some r \<Longrightarrow>
   recordFailures ts identifier la identifier =
     Some (r\<lparr>count := count r + int (length ts),
             lastAttempt := (if ts = [] then lastAttempt r else last ts)\<rparr>)"
proof (induction ts arbitrary: la r)
  case Nil
  then show ?case by simp
next
  case (Cons t ts)
  have "recordAttempt t identifier False la identifier
          = Some (r\<lparr>count := count r + 1, lastAttempt := t\<rparr>)"
    using Cons.prems by (simp add: recordAttempt_def)
  from Cons.IH [of "recordAttempt t identifier False la"
      "r\<lparr>count := count r + 1, lastAttempt := t\<rparr>", OF this]
  show ?case by simp
qed

lemma recordFailures_fresh:
  assumes "ts \<noteq> []" and "la identifier = None"
  shows "recordFailures ts identifier la identifier =
     Some \<lparr>count = int (length ts), lastAttempt = last ts, blockedUntil = 0\<rparr>"
proof (cases ts)
  case Nil
  with assms show ?thesis by simp
next
  case (Cons t ts')
  from assms have "recordAttempt t identifier False la identifier
          = Some \<lparr>count = 1, lastAttempt = t, blockedUntil = 0\<rparr>"
    by (simp add: recordAttempt_def)
  from recordFailures_known [of "recordAttempt t identifier False la" "identifier" _ ts', OF this]
  show ?thesis using Cons by simp
qed

lemma login_blocked:
  assumes "la (rateLimitKey env req) = Some r" and "checkTime env < blockedUntil r"
  shows "login env req la =
           (\<lparr>status = 429,
             body = RateLimitedBody (Some (ceil_seconds (blockedUntil r - checkTime env)))\<rparr>, la)"
  using assms by (simp add: login_def checkRateLimit_def)

lemma login_other:
  "k \<noteq> rateLimitKey env req \<Longrightarrow> snd (login env req la) k = la k"
  using checkRateLimit_other [of k "rateLimitKey env req" "checkTime env" la]
  by (auto simp: login_def Let_def recordAttempt_other split: prod.splits lookup.splits)

lemma serveLogins_blocked:
  assumes "la k = Some r"
    and "\<forall>(env, req) \<in> set reqs. checkTime env < blockedUntil r"
  shows "snd (serveLogins reqs la) k = Some r \<and>
         (\<forall>i < length reqs.
            rateLimitKey (fst (reqs ! i)) (snd (reqs ! i)) = k \<longrightarrow>
            fst (serveLogins reqs la) ! i =
              \<lparr>status = 429,
                body = RateLimitedBody
                  (Some (ceil_seconds (blockedUntil r - checkTime (fst (reqs ! i)))))\<rparr>)"
  using assms
proof (induction reqs arbitrary: la)
  case Nil
  then show ?case by simp
next
  case (Cons p reqs)
  obtain env req where p: "p = (env, req)" by (cases p)
  obtain resp la1 where step: "login env req la = (resp, la1)" by (cases "login env req la")
  from Cons.prems p have t: "checkTime env < blockedUntil r" by simp
  have la1: "la1 k = Some r"
  proof (cases "rateLimitKey env req = k")
    case True
    with Cons.prems(1) t step show ?thesis by (simp add: login_blocked)
  next
    case False
    then have "snd (login env req la) k = la k" by (simp add: login_other)
    with step Cons.prems(1) show ?thesis by simp
  qed
  have resp: "rateLimitKey env req = k \<Longrightarrow>
      resp = \<lparr>status = 429,
               body = RateLimitedBody (Some (ceil_seconds (blockedUntil r - checkTime env)))\<rparr>"
    using Cons.prems(1) t step by (simp add: login_blocked)
  from Cons.prems(2) have rest: "\<forall>(env, req) \<in> set reqs. checkTime env < blockedUntil r"
    by simp
  note IH = Cons.IH [of la1, OF la1 rest]
  obtain resps la2 where run: "serveLogins reqs la1 = (resps, la2)"
    by (cases "serveLogins reqs la1")
  have whole: "serveLogins (p # reqs) la = (resp # resps, la2)"
    using p step run by simp
  show ?case
  proof (intro conjI allI impI)
    show "snd (serveLogins (p # reqs) la) k = Some r"
      using whole IH run by simp
  next
    fix i
    assume i: "i < length (p # reqs)"
      and key: "rateLimitKey (fst ((p # reqs) ! i)) (snd ((p # reqs) ! i)) = k"
    show "fst (serveLogins (p # reqs) la) ! i =
            \<lparr>status = 429,
              body = RateLimitedBody
                (Some (ceil_seconds (blockedUntil r - checkTime (fst ((p # reqs) ! i)))))\<rparr>"
    proof (cases i)
      case 0
      with key p resp whole show ?thesis by simp
    next
      case (Suc j)
      with i key IH run whole show ?thesis by simp
    qed
  qed
qed

lemma checkRateLimit_allowed_state:
  assumes "allowed (fst (checkRateLimit now k la))"
  shows "snd (checkRateLimit now k la) = la \<or>
         (\<exists>r. la k = Some r \<and> now - lastAttempt r > RATE_LIMIT_WINDOW \<and>
              snd (checkRateLimit now k la) = la(k := None))"
  using assms by (auto simp: checkRateLimit_def split: option.splits if_splits)

lemma checkRateLimit_allowed_le:
  assumes "allowed (fst (checkRateLimit now k la))"
  shows "snd (checkRateLimit now k la) \<subseteq>\<^sub>m la"
  using checkRateLimit_allowed_state [OF assms] by (auto simp: map_le_def split: if_splits)

section \<open>Properties of the credential check\<close>

lemma fold_or_eq_0:
  "fold (\<lambda>i (result::32 word). result OR f i) is r0 = 0 \<longleftrightarrow>
     r0 = 0 \<and> (\<forall>i \<in> set is. f i = 0)"
  by (induction "is" arbitrary: r0) (auto simp: or_eq_0_iff)

lemma word_xor_eq_0: "(a::32 word) XOR b = 0 \<longleftrightarrow> a = b"
  by (metis bit.xor_left_self xor.right_neutral)

lemma ucast_16_32_inj: "(ucast (x::16 word) :: 32 word) = ucast (y::16 word) \<longleftrightarrow> x = y"
proof
  assume eq: "(ucast x :: 32 word) = ucast y"
  have up: "is_up (ucast :: 16 word \<Rightarrow> 32 word)" by (simp add: is_up)
  have "x = ucast (ucast x :: 32 word)" using ucast_up_ucast_id [OF up] by simp
  also have "\<dots> = ucast (ucast y :: 32 word)" using eq by simp
  also have "\<dots> = y" using ucast_up_ucast_id [OF up] by simp
  finally show "x = y" .
qed simp

lemma secureCompare_iff: "secureCompare a b \<longleftrightarrow> a = b"
proof (cases "length a = length b")
  case False
  then show ?thesis by (auto simp: secureCompare_def)
next
  case True
  then have "secureCompare a b \<longleftrightarrow> (\<forall>i < length a. a ! i = b ! i)"
    by (auto simp: secureCompare_def fold_or_eq_0 charCodeAt_def word_xor_eq_0 ucast_16_32_inj)
  with True show ?thesis by (auto simp: list_eq_iff_nth_eq)
qed

lemma verifyPassword_iff:
  "verifyPassword h k p stored \<longleftrightarrow> hashPassword h k p = stored"
  by (simp add: verifyPassword_def secureCompare_iff)

lemma credentialsRefused_iff:
  "credentialsRefused h k p stored \<longleftrightarrow> hashPassword h k p \<noteq> stored \<and> p \<noteq> stored"
  by (simp add: credentialsRefused_def verifyPassword_iff secureCompare_iff)

section \<open>Properties of the tutor endpoint\<close>



lemma usableContent_None_iff:
  "usableContent c = None \<longleftrightarrow>
     c = ContentMissing \<or> c = ContentNotAString \<or> (\<exists>s. c = ContentString s \<and> trim s = [])"
  by (cases c) (simp_all add: usableContent_def)

lemma studyChat_primary_usable:
  assumes "apiKeyConfigured env"
    and "studentAllowed (chatTime env) (studentId req) rl = (True, rl1)"
    and "gatewayOf env PRIMARY_MODEL (buildChatMessages (systemContent env) (messages req)) =
           OkJson c"
    and "usableContent c = Some s"
  shows "studyChat env req rl =
           (finishReply env req s, rl1,
            [(PRIMARY_MODEL, buildChatMessages (systemContent env) (messages req))])"
  using assms by (simp add: studyChat_def callLovableAI_def Let_def)

lemma studyChat_fallback:
  assumes "apiKeyConfigured env"
    and "studentAllowed (chatTime env) (studentId req) rl = (True, rl1)"
    and "gatewayOf env PRIMARY_MODEL (buildChatMessages (systemContent env) (messages req)) =
           OkJson c"
    and "usableContent c = None"
    and "gatewayOf env FALLBACK_MODEL (buildChatMessages (systemContent env) (messages req)) =
           OkJson c2"
  shows "studyChat env req rl =
           ((case usableContent c2 of
               Some s \<Rightarrow> finishReply env req s
             | None \<Rightarrow> \<lparr>status = 500, body = ChatFailure (Message ''No response from AI'')\<rparr>),
            rl1,
            [(PRIMARY_MODEL, buildChatMessages (systemContent env) (messages req)),
             (FALLBACK_MODEL, buildChatMessages (systemContent env) (messages req))])"
  using assms by (simp add: studyChat_def callLovableAI_def Let_def split: option.splits)

lemma studyChat_fallback_calls:
  assumes "apiKeyConfigured env"
    and "studentAllowed (chatTime env) (studentId req) rl = (True, rl1)"
    and "gatewayOf env PRIMARY_MODEL (buildChatMessages (systemContent env) (messages req)) =
           OkJson c"
    and "usableContent c = None"
  shows "snd (snd (studyChat env req rl)) =
           [(PRIMARY_MODEL, buildChatMessages (systemContent env) (messages req)),
            (FALLBACK_MODEL, buildChatMessages (systemContent env) (messages req))]"
  using assms
  by (simp add: studyChat_def callLovableAI_def Let_def
      split: option.splits gateway_answer.splits call_result.splits)

lemma example_allowed:
  "studentAllowed 5000 (Some (js ''stu-1'')) Map.empty =
     (True, [js ''chat:stu-1'' \<mapsto> \<lparr>limit_count = 1, resetAt = 65000\<rparr>])"
  by (simp add: studentAllowed_def checkRateLimit_chat_def js_def)

lemma example_contents:
  "usableContent (ContentString (js ''Namaste ji'')) = Some (js ''Namaste ji'')"
  "usableContent (ContentString (js ''  '')) = None"
  "usableContent ContentMissing = None"
  by (simp_all add: usableContent_def trim_def isWhiteSpace_def js_def)

lemma findFirst_sound:
  "findFirst pat s = Some (before, after) \<Longrightarrow> s = before @ pat @ after"
proof (induction s arbitrary: before)
  case Nil
  then show ?case by (simp split: if_splits)
next
  case (Cons c cs)
  show ?case
  proof (cases "take (length pat) (c # cs) = pat")
    case True
    with Cons.prems have "before = []" "after = drop (length pat) (c # cs)" by simp_all
    with True show ?thesis by (metis append_Nil append_take_drop_id)
  next
    case False
    with Cons.prems obtain b where "findFirst pat cs = Some (b, after)" "before = c # b"
      by (auto split: option.splits)
    with Cons.IH [of b] show ?thesis by simp
  qed
qed

lemma findFirst_complete:
  "\<exists>before after. findFirst pat (x @ pat @ y) = Some (before, after) \<and> length before \<le> length x"
proof (induction x)
  case Nil
  have t: "take (length pat) (pat @ y) = pat" by simp
  show ?case
  proof (cases "pat @ y")
    case Nil
    then show ?thesis by simp
  next
    case (Cons d ds)
    with t have "take (length pat) (d # ds) = pat" by simp
    with Cons show ?thesis by simp
  qed
next
  case (Cons c x)
  then show ?case by (auto split: option.splits)
qed

lemma analysisMatch_sound:
  assumes "analysisMatch raw = Some (before, inner, after)"
  shows "raw = before @ js ''[ANALYSIS]'' @ inner @ js ''[/ANALYSIS]'' @ after"
proof -
  from assms obtain rest where
    1: "findFirst (js ''[ANALYSIS]'') raw = Some (before, rest)" and
    2: "findFirst (js ''[/ANALYSIS]'') rest = Some (inner, after)"
    by (auto simp: analysisMatch_def split: option.splits)
  from findFirst_sound [OF 1] findFirst_sound [OF 2] show ?thesis by simp
qed

lemma analysisMatch_complete:
  "\<exists>before inner after.
     analysisMatch (a @ js ''[ANALYSIS]'' @ b @ js ''[/ANALYSIS]'' @ c) = Some (before, inner, after) \<and>
     length before \<le> length a \<and> length before + length inner \<le> length a + length b"
proof -
  let ?raw = "a @ js ''[ANALYSIS]'' @ b @ js ''[/ANALYSIS]'' @ c"
  from findFirst_complete [of "js ''[ANALYSIS]''" a "b @ js ''[/ANALYSIS]'' @ c"]
  obtain before rest where
    1: "findFirst (js ''[ANALYSIS]'') ?raw = Some (before, rest)" and le: "length before \<le> length a"
    by auto
  from findFirst_sound [OF 1] have eq: "?raw = before @ js ''[ANALYSIS]'' @ rest" .
  define n where "n = length before + length (js ''[ANALYSIS]'')"
  have "drop n (before @ js ''[ANALYSIS]'' @ rest) = rest" unfolding n_def by simp
  with eq have "rest = drop n ?raw" by simp
  also have "\<dots> = drop n (a @ js ''[ANALYSIS]'') @ b @ js ''[/ANALYSIS]'' @ c"
    using le unfolding n_def by simp
  finally have "rest = (drop n (a @ js ''[ANALYSIS]'') @ b) @ js ''[/ANALYSIS]'' @ c" by simp
  with findFirst_complete [of "js ''[/ANALYSIS]''" "drop n (a @ js ''[ANALYSIS]'') @ b" c]
  obtain inner after where 2: "findFirst (js ''[/ANALYSIS]'') rest = Some (inner, after)"
    and le2: "length inner \<le> length (drop n (a @ js ''[ANALYSIS]'') @ b)"
    by auto
  from le2 le have "length before + length inner \<le> length a + length b"
    unfolding n_def by simp
  with 1 2 le show ?thesis by (auto simp: analysisMatch_def)
qed

lemma example_match_good:
  \<open>analysisMatch (js ''Bahut accha! [ANALYSIS]{"understanding":"good"}[/ANALYSIS]'') =
     Some (js ''Bahut accha! '', js ''{"understanding":"good"}'', [])\<close>
  by (simp add: analysisMatch_def js_def)

lemma example_match_bad:
  \<open>analysisMatch (js ''Bahut accha! [ANALYSIS]{oops[/ANALYSIS]'') =
     Some (js ''Bahut accha! '', js ''{oops'', [])\<close>
  by (simp add: analysisMatch_def js_def)

section \<open>Properties of the session token of get-students\<close>

lemma split_not_Nil: "split sep t \<noteq> []"
  by (induction t) (auto split: list.splits)

lemma split_no_separator: "sep \<notin> set t \<Longrightarrow> split sep t = [t]"
  by (induction t) auto

lemma split_at_separator:
  "sep \<notin> set a \<Longrightarrow> split sep (a @ sep # rest) = a # split sep rest"
  by (induction a) auto

lemma adminIdOfToken_no_underscore:
  "underscore \<notin> set t \<Longrightarrow> adminIdOfToken (TokenString t) = Inr None"
  by (simp add: adminIdOfToken_def split_no_separator)

lemma adminIdOfToken_second_piece:
  assumes "underscore \<notin> set a" and "underscore \<notin> set b"
    and "rest = [] \<or> hd rest = underscore"
  shows "adminIdOfToken (TokenString (a @ underscore # b @ rest)) = Inr (Some b)"
proof -
  have "\<exists>ws. split underscore (b @ rest) = b # ws"
  proof (cases rest)
    case Nil
    with assms(2) show ?thesis by (simp add: split_no_separator)
  next
    case (Cons c cs)
    with assms(3) have "rest = underscore # cs" by simp
    with assms(2) show ?thesis by (simp add: split_at_separator)
  qed
  then obtain ws where "split underscore (b @ rest) = b # ws" ..
  with assms(1) show ?thesis
    by (simp add: adminIdOfToken_def split_at_separator)
qed

lemma isUUID_no_underscore:
  assumes "isUUID t"
  shows "underscore \<notin> set t"
proof
  assume "underscore \<in> set t"
  then obtain i where i: "i < length t" "t ! i = underscore" by (auto simp: in_set_conv_nth)
  from assms have len: "length t = 36"
    and all: "\<forall>i < 36. (if i \<in> {8, 13, 18, 23} then t ! i = hyphen else isHexDigit (t ! i))"
    by (auto simp: isUUID_def list_all_iff)
  from i len all have "underscore = hyphen \<or> isHexDigit underscore"
    by (metis)
  then show False
    by (simp add: underscore_def hyphen_def isHexDigit_def js_def)
qed

lemma getStudentsAdmin_rejects_iff:
  "adminIdOfToken tok = Inr d \<Longrightarrow>
   getStudentsAdmin env tok = \<lparr>status = 401, body = StudentsError ''Invalid admin session''\<rparr>
     \<longleftrightarrow> (\<forall>row. adminsById env d \<noteq> Row row)"
  by (auto simp: getStudentsAdmin_def split: lookup.splits fetched.splits)

lemma example_uuid: "isUUID (js ''0f8fad5b-d9cb-469f-a165-70867728950e'')"
  by code_simp

section \<open>A run of six logins\<close>

lemma example_refused:
  "credentialsRefused (\<lambda>data. js ''#'' @ map ucast (take 2 data)) (Some (js ''key'')) (js ''bad'') (js ''#pw'')"
  "\<not> credentialsRefused (\<lambda>data. js ''#'' @ map ucast (take 2 data)) (Some (js ''key'')) (js ''pw'') (js ''#pw'')"
  by (simp_all add: credentialsRefused_iff hashPassword_def encode_def utf8_def
      loneCodePoint_def isHighSurrogate_def isLowSurrogate_def js_def)

lemma example_six_logins:
  "fst (serveLogins
     [(example_env (Row example_admin) NoRow 1000, example_request ''admin'' ''root'' ''bad''),
      (example_env (Row example_admin) NoRow 2000, example_request ''admin'' ''root'' ''bad''),
      (example_env (Row example_admin) NoRow 3000, example_request ''admin'' ''root'' ''bad''),
      (example_env (Row example_admin) NoRow 4000, example_request ''admin'' ''root'' ''bad''),
      (example_env (Row example_admin) NoRow 5000, example_request ''admin'' ''root'' ''bad''),
      (example_env (Row example_admin) NoRow 6000, example_request ''admin'' ''root'' ''pw'')]
     Map.empty) =
   [\<lparr>status = 401, body = ErrorBody ''Invalid credentials''\<rparr>,
    \<lparr>status = 401, body = ErrorBody ''Invalid credentials''\<rparr>,
    \<lparr>status = 401, body = ErrorBody ''Invalid credentials''\<rparr>,
    \<lparr>status = 401, body = ErrorBody ''Invalid credentials''\<rparr>,
    \<lparr>status = 401, body = ErrorBody ''Invalid credentials''\<rparr>,
    \<lparr>status = 429, body = RateLimitedBody (Some 1800)\<rparr>]"
  using example_refused
  by (simp add: login_def checkRateLimit_def recordAttempt_def rateLimitKey_def
      example_env_def example_request_def example_admin_def js_def ceil_seconds_def
      RATE_LIMIT_WINDOW_def MAX_ATTEMPTS_def BLOCK_DURATION_def)

section \<open>The rate limiter's contract\<close>

text \<open>
  C1. Once five failed attempts are on record for an identifier (\<open>count\<close> is at least
  5), the last of them within the 15-minute window and no block running, the next
  \<open>checkRateLimit\<close> for that identifier answers \<open>allowed = false\<close> with
  \<open>waitSeconds = 1800\<close> and sets \<open>blockedUntil\<close> to 30 minutes after the check. In
  particular this is so after five failures recorded for an identifier that had no
  record, when the check comes within 15 minutes of the fifth.
\<close>

theorem C1_block_after_five_failures:
  "(la k = Some r \<and> 5 \<le> count r \<and> blockedUntil r \<le> now \<and>
      now - lastAttempt r \<le> 15 * 60 * 1000 \<longrightarrow>
      checkRateLimit now k la =
        (\<lparr>allowed = False, waitSeconds = Some 1800\<rparr>,
         la(k \<mapsto> r\<lparr>blockedUntil := now + 30 * 60 * 1000\<rparr>))) \<and>
   (la k = None \<and> length ts = 5 \<and> 0 \<le> now \<and> now - last ts \<le> 15 * 60 * 1000 \<longrightarrow>
      checkRateLimit now k (recordFailures ts k la) =
        (\<lparr>allowed = False, waitSeconds = Some 1800\<rparr>,
         (recordFailures ts k la)
           (k \<mapsto> \<lparr>count = 5, lastAttempt = last ts, blockedUntil = now + 30 * 60 * 1000\<rparr>)))"
proof (intro conjI impI)
  assume "la k = Some r \<and> 5 \<le> count r \<and> blockedUntil r \<le> now \<and>
      now - lastAttempt r \<le> 15 * 60 * 1000"
  then show "checkRateLimit now k la =
        (\<lparr>allowed = False, waitSeconds = Some 1800\<rparr>,
         la(k \<mapsto> r\<lparr>blockedUntil := now + 30 * 60 * 1000\<rparr>))"
    by (simp add: checkRateLimit_def RATE_LIMIT_WINDOW_def MAX_ATTEMPTS_def
        BLOCK_DURATION_def ceil_seconds_def)
next
  assume h: "la k = None \<and> length ts = 5 \<and> 0 \<le> now \<and> now - last ts \<le> 15 * 60 * 1000"
  then have "ts \<noteq> []" by auto
  with h have "recordFailures ts k la k =
      Some \<lparr>count = 5, lastAttempt = last ts, blockedUntil = 0\<rparr>"
    by (simp add: recordFailures_fresh)
  with h show "checkRateLimit now k (recordFailures ts k la) =
        (\<lparr>allowed = False, waitSeconds = Some 1800\<rparr>,
         (recordFailures ts k la)
           (k \<mapsto> \<lparr>count = 5, lastAttempt = last ts, blockedUntil = now + 30 * 60 * 1000\<rparr>))"
    by (simp add: checkRateLimit_def RATE_LIMIT_WINDOW_def MAX_ATTEMPTS_def
        BLOCK_DURATION_def ceil_seconds_def)
qed

theorem C1_block_after_five_failures_witness:
  "recordFailures [1000, 2000, 3000, 4000, 5000] (js ''admin:root'') Map.empty (js ''admin:root'')
     = Some \<lparr>count = 5, lastAttempt = 5000, blockedUntil = 0\<rparr> \<and>
   checkRateLimit 6000 (js ''admin:root'')
       (recordFailures [1000, 2000, 3000, 4000, 5000] (js ''admin:root'') Map.empty) =
     (\<lparr>allowed = False, waitSeconds = Some 1800\<rparr>,
      (recordFailures [1000, 2000, 3000, 4000, 5000] (js ''admin:root'') Map.empty)
        (js ''admin:root'' \<mapsto> \<lparr>count = 5, lastAttempt = 5000, blockedUntil = 1806000\<rparr>)) \<and>
   fst (serveLogins
     [(example_env (Row example_admin) NoRow 1000, example_request ''admin'' ''root'' ''bad''),
      (example_env (Row example_admin) NoRow 2000, example_request ''admin'' ''root'' ''bad''),
      (example_env (Row example_admin) NoRow 3000, example_request ''admin'' ''root'' ''bad''),
      (example_env (Row example_admin) NoRow 4000, example_request ''admin'' ''root'' ''bad''),
      (example_env (Row example_admin) NoRow 5000, example_request ''admin'' ''root'' ''bad''),
      (example_env (Row example_admin) NoRow 6000, example_request ''admin'' ''root'' ''pw'')]
     Map.empty) =
   [\<lparr>status = 401, body = ErrorBody ''Invalid credentials''\<rparr>,
    \<lparr>status = 401, body = ErrorBody ''Invalid credentials''\<rparr>,
    \<lparr>status = 401, body = ErrorBody ''Invalid credentials''\<rparr>,
    \<lparr>status = 401, body = ErrorBody ''Invalid credentials''\<rparr>,
    \<lparr>status = 401, body = ErrorBody ''Invalid credentials''\<rparr>,
    \<lparr>status = 429, body = RateLimitedBody (Some 1800)\<rparr>]"
  using C1_block_after_five_failures
    [of "recordFailures [1000, 2000, 3000, 4000, 5000] (js ''admin:root'') Map.empty"
        "js ''admin:root''" "\<lparr>count = 5, lastAttempt = 5000, blockedUntil = 0\<rparr>" 6000]
    C1_block_after_five_failures
    [of Map.empty "js ''admin:root''" _ 6000 "[1000, 2000, 3000, 4000, 5000]"]
    example_six_logins
  by (simp add: recordAttempt_def)

text \<open>
  C2. While the block of an identifier runs, every \<open>checkRateLimit\<close> answers
  \<open>allowed = false\<close> with the remaining time in seconds, rounded up, and leaves the table
  as it is; a failed attempt recorded in that time keeps \<open>blockedUntil\<close>; and login
  requests served before the block ends, whatever their keys, leave the identifier's
  record as it is, each request for the identifier being answered 429 with the remaining
  seconds.
\<close>

theorem C2_active_block_is_fixed:
  assumes "la k = Some r"
    and "now < blockedUntil r"
    and "\<forall>(env, req) \<in> set reqs. checkTime env < blockedUntil r"
  shows "checkRateLimit now k la =
           (\<lparr>allowed = False, waitSeconds = Some (ceil_seconds (blockedUntil r - now))\<rparr>, la) \<and>
         blockedUntil r - now \<le> 1000 * ceil_seconds (blockedUntil r - now) \<and>
         1000 * (ceil_seconds (blockedUntil r - now) - 1) < blockedUntil r - now \<and>
         map_option blockedUntil (recordAttempt now k False la k) = Some (blockedUntil r) \<and>
         snd (serveLogins reqs la) k = Some r \<and>
         (\<forall>i < length reqs.
            rateLimitKey (fst (reqs ! i)) (snd (reqs ! i)) = k \<longrightarrow>
            fst (serveLogins reqs la) ! i =
              \<lparr>status = 429,
                body = RateLimitedBody
                  (Some (ceil_seconds (blockedUntil r - checkTime (fst (reqs ! i)))))\<rparr>)"
proof -
  have "checkRateLimit now k la =
          (\<lparr>allowed = False, waitSeconds = Some (ceil_seconds (blockedUntil r - now))\<rparr>, la)"
    using assms(1,2) by (simp add: checkRateLimit_def)
  moreover have "map_option blockedUntil (recordAttempt now k False la k) = Some (blockedUntil r)"
    using assms(1) by (simp add: recordAttempt_def)
  ultimately show ?thesis
    using ceil_seconds_bounds [of "blockedUntil r - now"]
      serveLogins_blocked [of la k r reqs, OF assms(1) assms(3)]
    by simp
qed

theorem C2_active_block_is_fixed_witness:
  "checkRateLimit 9000 (js ''admin:root'')
       [js ''admin:root'' \<mapsto> \<lparr>count = 5, lastAttempt = 5000, blockedUntil = 1806000\<rparr>] =
     (\<lparr>allowed = False, waitSeconds = Some 1797\<rparr>,
      [js ''admin:root'' \<mapsto> \<lparr>count = 5, lastAttempt = 5000, blockedUntil = 1806000\<rparr>]) \<and>
   serveLogins
       [(example_env (Row example_admin) NoRow 9000, example_request ''admin'' ''root'' ''pw''),
        (example_env (Row example_admin) NoRow 1805500, example_request ''admin'' ''root'' ''bad'')]
       [js ''admin:root'' \<mapsto> \<lparr>count = 5, lastAttempt = 5000, blockedUntil = 1806000\<rparr>] =
     ([\<lparr>status = 429, body = RateLimitedBody (Some 1797)\<rparr>,
       \<lparr>status = 429, body = RateLimitedBody (Some 1)\<rparr>],
      [js ''admin:root'' \<mapsto> \<lparr>count = 5, lastAttempt = 5000, blockedUntil = 1806000\<rparr>])"
  using C2_active_block_is_fixed
    [of "[js ''admin:root'' \<mapsto> \<lparr>count = 5, lastAttempt = 5000, blockedUntil = 1806000\<rparr>]"
        "js ''admin:root''" "\<lparr>count = 5, lastAttempt = 5000, blockedUntil = 1806000\<rparr>" 9000
        "[(example_env (Row example_admin) NoRow 9000, example_request ''admin'' ''root'' ''pw''),
          (example_env (Row example_admin) NoRow 1805500, example_request ''admin'' ''root'' ''bad'')]"]
  by (simp add: login_def checkRateLimit_def rateLimitKey_def example_env_def example_request_def
      js_def ceil_seconds_def)

text \<open>
  C6. Recording a successful login deletes the identifier's record; the next check finds
  nothing and allows the attempt, and the next failed attempt creates a record with
  \<open>count = 1\<close>.
\<close>

theorem C6_success_resets_count:
  "recordAttempt now k True la = la(k := None) \<and>
   checkRateLimit now' k (recordAttempt now k True la) =
     (\<lparr>allowed = True, waitSeconds = None\<rparr>, recordAttempt now k True la) \<and>
   recordAttempt now'' k False (recordAttempt now k True la) =
     la(k \<mapsto> \<lparr>count = 1, lastAttempt = now'', blockedUntil = 0\<rparr>)"
  by (simp add: recordAttempt_def checkRateLimit_def)

section \<open>The credential verifier's contract\<close>

text \<open>
  C3, as amended. The password check of the login action accepts exactly when the
  digest of the encoded password followed by the secret prefix (the first 32 code units
  of the service key) equals the stored string, or the password itself equals the
  stored string; \<open>secureCompare\<close> is equality of strings; \<open>verifyPassword\<close> accepts the
  password a stored hash was made from, and accepts another password exactly when both
  have the same digest.
\<close>

theorem C3_password_check:
  "(\<not> credentialsRefused h k p stored \<longleftrightarrow> hashPassword h k p = stored \<or> p = stored) \<and>
   hashPassword h (Some key) p = h (encode (p @ take 32 key)) \<and>
   (secureCompare a b \<longleftrightarrow> a = b) \<and>
   verifyPassword h k p (hashPassword h k p) \<and>
   (verifyPassword h k p' (hashPassword h k p) \<longleftrightarrow> hashPassword h k p' = hashPassword h k p)"
  by (auto simp: credentialsRefused_iff verifyPassword_iff secureCompare_iff hashPassword_def)

text \<open>
  C3 as stated fails: \<open>verifyPassword\<close> does not refuse every other password. Two
  passwords that differ in an unpaired surrogate are encoded to the same bytes, so
  whatever the digest and the key are, each is accepted against the hash of the other.
\<close>

theorem C3_other_password_accepted_counterexample:
  "\<forall>sha256hex serviceRoleKey.
     [0x70, 0xDC00, 0x77] \<noteq> [0x70, 0xD800, 0x77 :: 16 word] \<and>
     verifyPassword sha256hex serviceRoleKey [0x70, 0xDC00, 0x77]
       (hashPassword sha256hex serviceRoleKey [0x70, 0xD800, 0x77])"
proof (intro allI conjI)
  show "[0x70, 0xDC00, 0x77] \<noteq> [0x70, 0xD800, 0x77 :: 16 word]" by simp
next
  fix sha256hex :: "8 word list \<Rightarrow> jsstring" and serviceRoleKey :: "jsstring option"
  have "encode ([0x70, 0xDC00, 0x77] @ salt) = encode ([0x70, 0xD800, 0x77] @ salt)" for salt
    by (simp add: encode_def loneCodePoint_def isHighSurrogate_def isLowSurrogate_def)
  then show "verifyPassword sha256hex serviceRoleKey [0x70, 0xDC00, 0x77]
       (hashPassword sha256hex serviceRoleKey [0x70, 0xD800, 0x77])"
    by (simp add: verifyPassword_iff hashPassword_def)
qed

section \<open>The login action's responses\<close>

text \<open>
  C4. A school login that passed the rate check and whose row is banned is answered 403
  with the suspension message. The banned branch records nothing: the table it returns
  is the one the rate check handed to it, every record in that table is a record of the
  table before the request, and the table is the one before the request unless the rate
  check dropped the key's expired record. The answer and the table do not depend on the
  password, the digest, the service key or the clock of \<open>recordAttempt\<close>: no password
  is verified.
\<close>

theorem C4_banned_school_403:
  assumes "req_userType req = js ''school''"
    and "schoolsBySchoolId env (req_identifier req) = Row school"
    and "school_is_banned school"
    and "allowed (fst (checkRateLimit (checkTime env) (rateLimitKey env req) la))"
  shows "login env req la =
           (\<lparr>status = 403, body = ErrorBody ''This school account has been suspended''\<rparr>,
            snd (checkRateLimit (checkTime env) (rateLimitKey env req) la)) \<and>
         login (env\<lparr>sha256hex := h, serviceRoleKey := key, recordTime := t\<rparr>)
               (req\<lparr>req_password := p\<rparr>) la = login env req la \<and>
         snd (login env req la) \<subseteq>\<^sub>m la \<and>
         ((case la (rateLimitKey env req) of
             None \<Rightarrow> True
           | Some r \<Rightarrow> checkTime env - lastAttempt r \<le> RATE_LIMIT_WINDOW) \<longrightarrow>
          snd (login env req la) = la)"
proof -
  have ne: "js ''school'' \<noteq> js ''admin''" by (simp add: js_def)
  have 1: "login env req la =
           (\<lparr>status = 403, body = ErrorBody ''This school account has been suspended''\<rparr>,
            snd (checkRateLimit (checkTime env) (rateLimitKey env req) la))"
    using assms ne by (auto simp: login_def Let_def split: prod.splits)
  have k: "rateLimitKey (env\<lparr>sha256hex := h, serviceRoleKey := key, recordTime := t\<rparr>)
             (req\<lparr>req_password := p\<rparr>) = rateLimitKey env req"
    by (simp add: rateLimitKey_def)
  have 2: "login (env\<lparr>sha256hex := h, serviceRoleKey := key, recordTime := t\<rparr>)
               (req\<lparr>req_password := p\<rparr>) la =
           (\<lparr>status = 403, body = ErrorBody ''This school account has been suspended''\<rparr>,
            snd (checkRateLimit (checkTime env) (rateLimitKey env req) la))"
    using assms ne k by (auto simp: login_def Let_def split: prod.splits)
  have 3: "snd (checkRateLimit (checkTime env) (rateLimitKey env req) la) = la"
    if "case la (rateLimitKey env req) of
          None \<Rightarrow> True
        | Some r \<Rightarrow> checkTime env - lastAttempt r \<le> RATE_LIMIT_WINDOW"
    using checkRateLimit_allowed_state [OF assms(4)] that by auto
  from 1 2 3 checkRateLimit_allowed_le [OF assms(4)] show ?thesis by simp
qed

theorem C4_banned_school_403_witness:
  "login (example_env NoRow (Row (example_school True)) 2000000)
         (example_request ''school'' ''SCH_1'' ''wrong'')
         [js ''school:SCH_1'' \<mapsto> \<lparr>count = 2, lastAttempt = 1900000, blockedUntil = 0\<rparr>] =
     (\<lparr>status = 403, body = ErrorBody ''This school account has been suspended''\<rparr>,
      [js ''school:SCH_1'' \<mapsto> \<lparr>count = 2, lastAttempt = 1900000, blockedUntil = 0\<rparr>])"
  using C4_banned_school_403
    [of "example_request ''school'' ''SCH_1'' ''wrong''"
        "example_env NoRow (Row (example_school True)) 2000000" "example_school True"
        "[js ''school:SCH_1'' \<mapsto> \<lparr>count = 2, lastAttempt = 1900000, blockedUntil = 0\<rparr>]"]
  by (simp add: example_env_def example_request_def example_school_def checkRateLimit_def
      rateLimitKey_def js_def RATE_LIMIT_WINDOW_def MAX_ATTEMPTS_def)




section \<open>The tutor endpoint's contract\<close>



text \<open>
  C9. When the primary model answers OK, its content is unusable exactly when it is
  missing, not a string, or trims to the empty string. Then the gateway is called twice,
  the second call being the fallback model with the same messages; a usable fallback
  content becomes the reply, and an unusable one ends in the error response
  \<open>No response from AI\<close>. When the primary content is usable the gateway is called once
  and that content becomes the reply.
\<close>

theorem C9_fallback_once:
  assumes "apiKeyConfigured env"
    and "studentAllowed (chatTime env) (studentId req) rl = (True, rl1)"
    and "gatewayOf env PRIMARY_MODEL (buildChatMessages (systemContent env) (messages req)) =
           OkJson c"
  shows "(usableContent c = None \<longleftrightarrow>
            c = ContentMissing \<or> c = ContentNotAString \<or>
            (\<exists>s. c = ContentString s \<and> trim s = [])) \<and>
         (usableContent c = None \<longrightarrow>
            snd (snd (studyChat env req rl)) =
              [(PRIMARY_MODEL, buildChatMessages (systemContent env) (messages req)),
               (FALLBACK_MODEL, buildChatMessages (systemContent env) (messages req))]) \<and>
         (\<forall>c2 s. usableContent c = None \<and>
            gatewayOf env FALLBACK_MODEL (buildChatMessages (systemContent env) (messages req)) =
              OkJson c2 \<and> usableContent c2 = Some s \<longrightarrow>
            fst (studyChat env req rl) = finishReply env req s \<and>
            (\<not> analyzeSession req \<longrightarrow>
               fst (studyChat env req rl) = \<lparr>status = 200, body = ChatReply s None\<rparr>)) \<and>
         (\<forall>c2. usableContent c = None \<and>
            gatewayOf env FALLBACK_MODEL (buildChatMessages (systemContent env) (messages req)) =
              OkJson c2 \<and> usableContent c2 = None \<longrightarrow>
            fst (studyChat env req rl) =
              \<lparr>status = 500, body = ChatFailure (Message ''No response from AI'')\<rparr>) \<and>
         (\<forall>s. usableContent c = Some s \<longrightarrow>
            studyChat env req rl =
              (finishReply env req s, rl1,
               [(PRIMARY_MODEL, buildChatMessages (systemContent env) (messages req))]))"
proof (intro conjI allI impI)
  show "usableContent c = None \<longleftrightarrow>
          c = ContentMissing \<or> c = ContentNotAString \<or> (\<exists>s. c = ContentString s \<and> trim s = [])"
    by (rule usableContent_None_iff)
next
  assume "usableContent c = None"
  with assms show "snd (snd (studyChat env req rl)) =
      [(PRIMARY_MODEL, buildChatMessages (systemContent env) (messages req)),
       (FALLBACK_MODEL, buildChatMessages (systemContent env) (messages req))]"
    by (rule studyChat_fallback_calls)
next
  fix c2 s
  assume h: "usableContent c = None \<and>
    gatewayOf env FALLBACK_MODEL (buildChatMessages (systemContent env) (messages req)) =
      OkJson c2 \<and> usableContent c2 = Some s"
  with studyChat_fallback [OF assms, of c2]
  show r: "fst (studyChat env req rl) = finishReply env req s" by simp
  assume "\<not> analyzeSession req"
  with r show "fst (studyChat env req rl) = \<lparr>status = 200, body = ChatReply s None\<rparr>"
    by (simp add: finishReply_def extractAnalysis_def)
next
  fix c2
  assume "usableContent c = None \<and>
    gatewayOf env FALLBACK_MODEL (buildChatMessages (systemContent env) (messages req)) =
      OkJson c2 \<and> usableContent c2 = None"
  with studyChat_fallback [OF assms, of c2]
  show "fst (studyChat env req rl) =
      \<lparr>status = 500, body = ChatFailure (Message ''No response from AI'')\<rparr>" by simp
next
  fix s
  assume "usableContent c = Some s"
  with assms show "studyChat env req rl =
      (finishReply env req s, rl1,
       [(PRIMARY_MODEL, buildChatMessages (systemContent env) (messages req))])"
    by (rule studyChat_primary_usable)
qed

theorem C9_fallback_once_witness:
  "studyChat (example_chat_env (example_gateway (ContentString (js ''  ''))
                 (ContentString (js ''Namaste ji''))))
       (example_chat_request False) Map.empty =
     (\<lparr>status = 200, body = ChatReply (js ''Namaste ji'') None\<rparr>,
      [js ''chat:stu-1'' \<mapsto> \<lparr>limit_count = 1, resetAt = 65000\<rparr>],
      [(PRIMARY_MODEL,
        buildChatMessages (js ''You are an AI Study Buddy'') (Some example_transcript)),
       (FALLBACK_MODEL,
        buildChatMessages (js ''You are an AI Study Buddy'') (Some example_transcript))]) \<and>
   studyChat (example_chat_env (example_gateway ContentMissing (ContentString (js ''  ''))))
       (example_chat_request False) Map.empty =
     (\<lparr>status = 500, body = ChatFailure (Message ''No response from AI'')\<rparr>,
      [js ''chat:stu-1'' \<mapsto> \<lparr>limit_count = 1, resetAt = 65000\<rparr>],
      [(PRIMARY_MODEL,
        buildChatMessages (js ''You are an AI Study Buddy'') (Some example_transcript)),
       (FALLBACK_MODEL,
        buildChatMessages (js ''You are an AI Study Buddy'') (Some example_transcript))]) \<and>
   studyChat (example_chat_env (example_gateway (ContentString (js ''Namaste ji''))
                 ContentMissing))
       (example_chat_request False) Map.empty =
     (\<lparr>status = 200, body = ChatReply (js ''Namaste ji'') None\<rparr>,
      [js ''chat:stu-1'' \<mapsto> \<lparr>limit_count = 1, resetAt = 65000\<rparr>],
      [(PRIMARY_MODEL,
        buildChatMessages (js ''You are an AI Study Buddy'') (Some example_transcript))])"
proof -
  have ne: "FALLBACK_MODEL \<noteq> PRIMARY_MODEL"
    by (simp add: FALLBACK_MODEL_def PRIMARY_MODEL_def js_def)
  show ?thesis
    using C9_fallback_once
      [of "example_chat_env (example_gateway (ContentString (js ''  ''))
             (ContentString (js ''Namaste ji'')))"
          "example_chat_request False" Map.empty
          "[js ''chat:stu-1'' \<mapsto> \<lparr>limit_count = 1, resetAt = 65000\<rparr>]"
          "ContentString (js ''  '')"]
      C9_fallback_once
      [of "example_chat_env (example_gateway ContentMissing (ContentString (js ''  '')))"
          "example_chat_request False" Map.empty
          "[js ''chat:stu-1'' \<mapsto> \<lparr>limit_count = 1, resetAt = 65000\<rparr>]"
          ContentMissing]
      C9_fallback_once
      [of "example_chat_env (example_gateway (ContentString (js ''Namaste ji''))
             ContentMissing)"
          "example_chat_request False" Map.empty
          "[js ''chat:stu-1'' \<mapsto> \<lparr>limit_count = 1, resetAt = 65000\<rparr>]"
          "ContentString (js ''Namaste ji'')"]
      example_allowed example_contents ne
    by (simp add: studyChat_def callLovableAI_def example_chat_env_def example_gateway_def
        example_chat_request_def finishReply_def extractAnalysis_def Let_def)
qed

text \<open>
  C10. With analysis requested, a reply that contains a delimited block has a match:
  the text of that match is an opening delimiter, a group and a closing delimiter, and
  it starts and closes no later than any delimited block of the reply. When
  \<open>JSON.parse\<close> accepts the group, the visible reply is the text around the match,
  trimmed, and the parsed value is the analysis; when it throws, the reply is returned as
  it came and the analysis is \<open>null\<close>. Both responses have status 200.
\<close>

theorem C10_analysis_block:
  assumes "raw = a @ js ''[ANALYSIS]'' @ b @ js ''[/ANALYSIS]'' @ c"
    and "analyzeSession req"
  shows "\<exists>before inner after.
           analysisMatch raw = Some (before, inner, after) \<and>
           raw = before @ js ''[ANALYSIS]'' @ inner @ js ''[/ANALYSIS]'' @ after \<and>
           length before \<le> length a \<and>
           length before + length inner \<le> length a + length b \<and>
           (\<forall>parsed. jsonParse env inner = Some parsed \<longrightarrow>
              finishReply env req raw =
                \<lparr>status = 200, body = ChatReply (trim (before @ after)) (Some parsed)\<rparr>) \<and>
           (jsonParse env inner = None \<longrightarrow>
              finishReply env req raw = \<lparr>status = 200, body = ChatReply raw None\<rparr>)"
proof -
  from analysisMatch_complete [of a b c] assms(1)
  obtain before inner after where
    m: "analysisMatch raw = Some (before, inner, after)" and
    le: "length before \<le> length a" "length before + length inner \<le> length a + length b"
    by auto
  have "raw = before @ js ''[ANALYSIS]'' @ inner @ js ''[/ANALYSIS]'' @ after"
    using m by (rule analysisMatch_sound)
  moreover have "\<forall>parsed. jsonParse env inner = Some parsed \<longrightarrow>
      finishReply env req raw =
        \<lparr>status = 200, body = ChatReply (trim (before @ after)) (Some parsed)\<rparr>"
    using m assms(2) by (simp add: finishReply_def extractAnalysis_def)
  moreover have "jsonParse env inner = None \<longrightarrow>
      finishReply env req raw = \<lparr>status = 200, body = ChatReply raw None\<rparr>"
    using m assms(2) by (simp add: finishReply_def extractAnalysis_def)
  ultimately show ?thesis using m le
    by - (rule exI [of _ before], rule exI [of _ inner], rule exI [of _ after], simp)
qed

theorem C10_analysis_block_witness:
  \<open>fst (studyChat
       (example_chat_env (example_gateway
          (ContentString (js ''Bahut accha! [ANALYSIS]{"understanding":"good"}[/ANALYSIS]''))
          ContentMissing))
       (example_chat_request True) Map.empty) =
     \<lparr>status = 200,
      body = ChatReply (js ''Bahut accha!'')
               (Some (JObject [(js ''understanding'', JString (js ''good''))]))\<rparr> \<and>
   fst (studyChat
       (example_chat_env (example_gateway
          (ContentString (js ''Bahut accha! [ANALYSIS]{oops[/ANALYSIS]'')) ContentMissing))
       (example_chat_request True) Map.empty) =
     \<lparr>status = 200,
      body = ChatReply (js ''Bahut accha! [ANALYSIS]{oops[/ANALYSIS]'') None\<rparr>\<close>
proof -
  have g: \<open>js ''Bahut accha! [ANALYSIS]{"understanding":"good"}[/ANALYSIS]'' =
      js ''Bahut accha! '' @ js ''[ANALYSIS]'' @ js ''{"understanding":"good"}'' @
      js ''[/ANALYSIS]'' @ []\<close>
    by (simp add: js_def)
  have b: \<open>js ''Bahut accha! [ANALYSIS]{oops[/ANALYSIS]'' =
      js ''Bahut accha! '' @ js ''[ANALYSIS]'' @ js ''{oops'' @ js ''[/ANALYSIS]'' @ []\<close>
    by (simp add: js_def)
  have a: "analyzeSession (example_chat_request True)"
    by (simp add: example_chat_request_def)
  have p: \<open>example_parse (js ''{"understanding":"good"}'') =
        Some (JObject [(js ''understanding'', JString (js ''good''))])\<close>
      \<open>example_parse (js ''{oops'') = None\<close>
    by (simp_all add: example_parse_def js_def)
  have t: "trim (js ''Bahut accha! '' @ []) = js ''Bahut accha!''"
    by (simp add: trim_def isWhiteSpace_def js_def)
  have u: \<open>usableContent
        (ContentString (js ''Bahut accha! [ANALYSIS]{"understanding":"good"}[/ANALYSIS]'')) =
        Some (js ''Bahut accha! [ANALYSIS]{"understanding":"good"}[/ANALYSIS]'')\<close>
      \<open>usableContent (ContentString (js ''Bahut accha! [ANALYSIS]{oops[/ANALYSIS]'')) =
        Some (js ''Bahut accha! [ANALYSIS]{oops[/ANALYSIS]'')\<close>
    by (simp_all add: usableContent_def trim_def isWhiteSpace_def js_def)
  have f1: \<open>finishReply (example_chat_env gw) (example_chat_request True)
        (js ''Bahut accha! [ANALYSIS]{"understanding":"good"}[/ANALYSIS]'') =
      \<lparr>status = 200,
       body = ChatReply (js ''Bahut accha!'')
               (Some (JObject [(js ''understanding'', JString (js ''good''))]))\<rparr>\<close> for gw
    using C10_analysis_block [OF g a, of "example_chat_env gw"] example_match_good p t
    by (auto simp: example_chat_env_def)
  have f2: \<open>finishReply (example_chat_env gw) (example_chat_request True)
        (js ''Bahut accha! [ANALYSIS]{oops[/ANALYSIS]'') =
      \<lparr>status = 200,
       body = ChatReply (js ''Bahut accha! [ANALYSIS]{oops[/ANALYSIS]'') None\<rparr>\<close> for gw
    using C10_analysis_block [OF b a, of "example_chat_env gw"] example_match_bad p
    by (auto simp: example_chat_env_def)
  show ?thesis
    using f1 f2 u example_allowed
    by (simp add: studyChat_def callLovableAI_def Let_def example_gateway_def
        example_chat_env_def example_chat_request_def)
qed

section \<open>The session check of get-students\<close>

text \<open>
  C7. The admin id the handler derives from a session token is the piece after the
  first underscore, up to the second underscore or the end of the token, and
  \<open>undefined\<close> when the token has no underscore. The request is refused with 401
  \<open>Invalid admin session\<close> exactly when the store finds no admin row for the derived id.
  A token made by \<open>crypto.randomUUID()\<close> has no underscore, so the derived id is
  \<open>undefined\<close>, and the request is refused whenever the store finds no row for
  \<open>undefined\<close>.
\<close>

theorem C7_admin_session_from_token:
  "(underscore \<notin> set a \<and> underscore \<notin> set b \<and> (rest = [] \<or> hd rest = underscore) \<longrightarrow>
      adminIdOfToken (TokenString (a @ underscore # b @ rest)) = Inr (Some b) \<and>
      (getStudentsAdmin env (TokenString (a @ underscore # b @ rest)) =
         \<lparr>status = 401, body = StudentsError ''Invalid admin session''\<rparr>
       \<longleftrightarrow> (\<forall>row. adminsById env (Some b) \<noteq> Row row))) \<and>
   (underscore \<notin> set t \<longrightarrow>
      adminIdOfToken (TokenString t) = Inr None \<and>
      (getStudentsAdmin env (TokenString t) =
         \<lparr>status = 401, body = StudentsError ''Invalid admin session''\<rparr>
       \<longleftrightarrow> (\<forall>row. adminsById env None \<noteq> Row row))) \<and>
   (isUUID t \<longrightarrow> underscore \<notin> set t) \<and>
   (isUUID t \<and> (\<forall>row. adminsById env None \<noteq> Row row) \<longrightarrow>
      getStudentsAdmin env (TokenString t) =
        \<lparr>status = 401, body = StudentsError ''Invalid admin session''\<rparr>)"
proof (intro conjI impI)
  assume h: "underscore \<notin> set a \<and> underscore \<notin> set b \<and> (rest = [] \<or> hd rest = underscore)"
  then show d: "adminIdOfToken (TokenString (a @ underscore # b @ rest)) = Inr (Some b)"
    by (simp add: adminIdOfToken_second_piece)
  show "getStudentsAdmin env (TokenString (a @ underscore # b @ rest)) =
         \<lparr>status = 401, body = StudentsError ''Invalid admin session''\<rparr>
       \<longleftrightarrow> (\<forall>row. adminsById env (Some b) \<noteq> Row row)"
    using d by (rule getStudentsAdmin_rejects_iff)
next
  assume "underscore \<notin> set t"
  then show d: "adminIdOfToken (TokenString t) = Inr None"
    by (rule adminIdOfToken_no_underscore)
  show "getStudentsAdmin env (TokenString t) =
         \<lparr>status = 401, body = StudentsError ''Invalid admin session''\<rparr>
       \<longleftrightarrow> (\<forall>row. adminsById env None \<noteq> Row row)"
    using d by (rule getStudentsAdmin_rejects_iff)
next
  assume "isUUID t"
  then show "underscore \<notin> set t" by (rule isUUID_no_underscore)
next
  assume h: "isUUID t \<and> (\<forall>row. adminsById env None \<noteq> Row row)"
  then have "adminIdOfToken (TokenString t) = Inr None"
    by (simp add: isUUID_no_underscore adminIdOfToken_no_underscore)
  from getStudentsAdmin_rejects_iff [OF this, of env] h
  show "getStudentsAdmin env (TokenString t) =
        \<lparr>status = 401, body = StudentsError ''Invalid admin session''\<rparr>" by simp
qed

theorem C7_admin_session_from_token_witness:
  "isUUID (js ''0f8fad5b-d9cb-469f-a165-70867728950e'') \<and>
   getStudentsAdmin example_students_env
       (TokenString (js ''0f8fad5b-d9cb-469f-a165-70867728950e'')) =
     \<lparr>status = 401, body = StudentsError ''Invalid admin session''\<rparr> \<and>
   getStudentsAdmin example_students_env (TokenString (js ''admin_a-1_1700000000'')) =
     \<lparr>status = 200, body = StudentsAndSchools [js ''Ravi''] []\<rparr> \<and>
   getStudentsAdmin example_students_env (TokenString (js ''admin_a-2_1700000000'')) =
     \<lparr>status = 401, body = StudentsError ''Invalid admin session''\<rparr>"
proof -
  have n: "\<forall>row. adminsById example_students_env None \<noteq> Row row"
    by (simp add: example_students_env_def)
  have 1: "getStudentsAdmin example_students_env
       (TokenString (js ''0f8fad5b-d9cb-469f-a165-70867728950e'')) =
     \<lparr>status = 401, body = StudentsError ''Invalid admin session''\<rparr>"
    using C7_admin_session_from_token
      [of _ _ _ example_students_env "js ''0f8fad5b-d9cb-469f-a165-70867728950e''"]
      example_uuid n by blast
  have 2: "getStudentsAdmin example_students_env (TokenString (js ''admin_a-2_1700000000'')) =
     \<lparr>status = 401, body = StudentsError ''Invalid admin session''\<rparr>"
    using C7_admin_session_from_token
      [of "js ''admin''" "js ''a-2''" "js ''_1700000000''" example_students_env]
    by (simp add: example_students_env_def underscore_def js_def)
  have 3: "getStudentsAdmin example_students_env (TokenString (js ''admin_a-1_1700000000'')) =
     \<lparr>status = 200, body = StudentsAndSchools [js ''Ravi''] []\<rparr>"
    by (simp add: getStudentsAdmin_def adminIdOfToken_def example_students_env_def
        underscore_def js_def)
  from 1 2 3 example_uuid show ?thesis by simp
qed

end
